theory Spec2Isabelle
  imports
    Main
    "HOL-Library.Mapping"
    "HOL-Library.AList_Mapping"
    "HOL-Library.List_Lexorder"
    "HOL-Library.Sublist"
begin

section \<open>The OpenAPI code generator \<^verbatim>\<open>openapi-gen/main.go\<close>\<close>

text \<open>
  The generator reads a Swagger document, decodes it with \<^verbatim>\<open>encoding/json\<close> and executes
  one \<^verbatim>\<open>text/template\<close> over the decoded value. The development below embeds
  \<^verbatim>\<open>convertRefToClassName\<close>, \<^verbatim>\<open>snakeCaseToPascalCase\<close>, \<^verbatim>\<open>stripNewlines\<close>, the template
  \<^verbatim>\<open>codeTemplate\<close> and \<^verbatim>\<open>main\<close>.
\<close>

subsection \<open>Go strings\<close>

text \<open>
  Every string the three helper functions and the template receive is a key or a value of the
  decoded document, and \<^verbatim>\<open>encoding/json\<close> only produces valid UTF-8. A Go string is therefore
  represented by the sequence of its code points (what \<^verbatim>\<open>range\<close> over the string yields);
  \<open>utf8\<close> gives back its bytes, which is what indexing (\<^verbatim>\<open>input[0]\<close>) and the byte offsets of
  \<^verbatim>\<open>range\<close> see. \<open>rs\<close> writes an ASCII literal as such a string.
\<close>

type_synonym rune = nat
type_synonym gostring = "rune list"

definition rs :: "string \<Rightarrow> gostring" where
  "rs s = map of_char s"

abbreviation underscore :: rune where
  "underscore \<equiv> 95"

text \<open>\<^verbatim>\<open>utf8.EncodeRune\<close>: the bytes of one code point (an invalid one is written as U+FFFD).\<close>

definition EncodeRune :: "rune \<Rightarrow> nat list" where
  "EncodeRune r =
     (if r \<le> 0x7F then [r]
      else if r \<le> 0x7FF then [0xC0 + r div 64, 0x80 + r mod 64]
      else if r > 0x10FFFF \<or> (0xD800 \<le> r \<and> r \<le> 0xDFFF) then [0xEF, 0xBF, 0xBD]
      else if r \<le> 0xFFFF then [0xE0 + r div 4096, 0x80 + (r div 64) mod 64, 0x80 + r mod 64]
      else [0xF0 + r div 262144, 0x80 + (r div 4096) mod 64, 0x80 + (r div 64) mod 64,
            0x80 + r mod 64])"

definition utf8 :: "gostring \<Rightarrow> nat list" where
  "utf8 s = concat (map EncodeRune s)"

text \<open>
  \<^verbatim>\<open>for k, v := range input\<close>: the pairs of the byte offset at which a code point starts and
  the code point.
\<close>

fun range_string :: "nat \<Rightarrow> gostring \<Rightarrow> (nat \<times> rune) list" where
  "range_string k [] = []"
| "range_string k (v # vs) = (k, v) # range_string (k + length (EncodeRune v)) vs"

text \<open>Indexing a string reads a byte and panics out of range.\<close>

datatype panic = IndexOutOfRange

definition index_string :: "gostring \<Rightarrow> nat \<Rightarrow> panic + nat" where
  "index_string s i = (if i < length (utf8 s) then Inr (utf8 s ! i) else Inl IndexOutOfRange)"

subsection \<open>The functions of package \<^verbatim>\<open>strings\<close> and \<^verbatim>\<open>unicode\<close> that the program calls\<close>

text \<open>
  The case and category tables of package \<^verbatim>\<open>unicode\<close> are data of the Go distribution. The
  functions below follow the library on ASCII, where it does not consult the tables, and take
  the tables for the code points above \<^verbatim>\<open>unicode.MaxASCII\<close> as a parameter.
\<close>

record unicode_tables =
  upper_tab :: "rune \<Rightarrow> rune"
  title_tab :: "rune \<Rightarrow> rune"
  letter_tab :: "rune \<Rightarrow> bool"
  digit_tab :: "rune \<Rightarrow> bool"
  space_tab :: "rune \<Rightarrow> bool"

text \<open>Tables that know no letter, digit or space above ASCII, for concrete runs on ASCII text.\<close>

definition ascii_tables :: unicode_tables where
  "ascii_tables =
     \<lparr>upper_tab = (\<lambda>r. r), title_tab = (\<lambda>r. r), letter_tab = (\<lambda>r. False),
      digit_tab = (\<lambda>r. False), space_tab = (\<lambda>r. False)\<rparr>"

definition unicode_ToUpper :: "unicode_tables \<Rightarrow> rune \<Rightarrow> rune" where
  "unicode_ToUpper U r =
     (if r \<le> 0x7F then (if 97 \<le> r \<and> r \<le> 122 then r - 32 else r) else upper_tab U r)"

definition unicode_ToTitle :: "unicode_tables \<Rightarrow> rune \<Rightarrow> rune" where
  "unicode_ToTitle U r =
     (if r \<le> 0x7F then (if 97 \<le> r \<and> r \<le> 122 then r - 32 else r) else title_tab U r)"

text \<open>
  \<^verbatim>\<open>strings.isSeparator\<close>: ASCII letters, digits and the underscore are not separators, every
  other ASCII character is; above ASCII, letters and digits are not, and spaces are.
\<close>

definition isSeparator :: "unicode_tables \<Rightarrow> rune \<Rightarrow> bool" where
  "isSeparator U r =
     (if r \<le> 0x7F then
        (if 48 \<le> r \<and> r \<le> 57 then False
         else if 97 \<le> r \<and> r \<le> 122 then False
         else if 65 \<le> r \<and> r \<le> 90 then False
         else if r = underscore then False
         else True)
      else if letter_tab U r \<or> digit_tab U r then False
      else space_tab U r)"

definition strings_ToUpper :: "unicode_tables \<Rightarrow> gostring \<Rightarrow> gostring" where
  "strings_ToUpper U s = map (unicode_ToUpper U) s"

text \<open>
  \<^verbatim>\<open>strings.Title\<close> maps over the code points and remembers the previous one, starting from a
  space: a code point after a separator is put in title case.
\<close>

fun Title_from :: "unicode_tables \<Rightarrow> rune \<Rightarrow> gostring \<Rightarrow> gostring" where
  "Title_from U prev [] = []"
| "Title_from U prev (r # s) =
     (if isSeparator U prev then unicode_ToTitle U r else r) # Title_from U r s"

definition strings_Title :: "unicode_tables \<Rightarrow> gostring \<Rightarrow> gostring" where
  "strings_Title U s = Title_from U 32 s"

text \<open>\<^verbatim>\<open>strings.TrimLeft(s, cutset)\<close> removes every leading code point that occurs in the cutset.\<close>

definition strings_TrimLeft :: "gostring \<Rightarrow> gostring \<Rightarrow> gostring" where
  "strings_TrimLeft s cutset =
     (if s = [] \<or> cutset = [] then s else dropWhile (\<lambda>r. r \<in> set cutset) s)"

text \<open>
  \<^verbatim>\<open>strings.Replace(s, old, new, n)\<close> replaces the first \<open>n\<close> non-overlapping occurrences of
  \<open>old\<close>, all of them when \<open>n\<close> is negative; an empty \<open>old\<close> matches before every code point and
  at the end.
\<close>

function strings_Replace :: "gostring \<Rightarrow> gostring \<Rightarrow> gostring \<Rightarrow> int \<Rightarrow> gostring" where
  "strings_Replace s old new n =
     (if old = new \<or> n = 0 then s
      else if old = [] then
        (case s of [] \<Rightarrow> new | c # cs \<Rightarrow> new @ c # strings_Replace cs old new (n - 1))
      else if prefix old s then new @ strings_Replace (drop (length old) s) old new (n - 1)
      else (case s of [] \<Rightarrow> [] | c # cs \<Rightarrow> c # strings_Replace cs old new n))"
  by pat_completeness auto
termination
  by (relation "measure (\<lambda>(s, old, new, n). length s)") (auto simp: prefix_def)

subsection \<open>The three helper functions\<close>

definition convertRefToClassName :: "unicode_tables \<Rightarrow> gostring \<Rightarrow> gostring" where
  "convertRefToClassName U input =
     (let cleanRef = strings_TrimLeft input (rs ''#/definitions/'')
      in strings_Title U cleanRef)"

text \<open>
  The body of the loop of \<^verbatim>\<open>snakeCaseToPascalCase\<close>, on the loop's state (\<open>output\<close>,
  \<open>isToUpper\<close>): \<^verbatim>\<open>string(input[0])\<close> is the string of the code point whose number is the first
  byte of the input.
\<close>

fun snake_body ::
  "unicode_tables \<Rightarrow> gostring \<Rightarrow> gostring \<times> bool \<Rightarrow> nat \<times> rune \<Rightarrow> panic + gostring \<times> bool" where
  "snake_body U input (output, isToUpper) (k, v) =
     (if k = 0 then
        (case index_string input 0 of
           Inl e \<Rightarrow> Inl e
         | Inr b \<Rightarrow> Inr (strings_ToUpper U [b], isToUpper))
      else if isToUpper then Inr (output @ strings_ToUpper U [v], False)
      else if v = underscore then Inr (output, True)
      else Inr (output @ [v], isToUpper))"

fun snake_loop ::
  "unicode_tables \<Rightarrow> gostring \<Rightarrow> gostring \<times> bool \<Rightarrow> (nat \<times> rune) list \<Rightarrow> panic + gostring \<times> bool"
  where
  "snake_loop U input st [] = Inr st"
| "snake_loop U input st (kv # kvs) =
     (case snake_body U input st kv of
        Inl e \<Rightarrow> Inl e
      | Inr st' \<Rightarrow> snake_loop U input st' kvs)"

definition snakeCaseToPascalCase :: "unicode_tables \<Rightarrow> gostring \<Rightarrow> panic + gostring" where
  "snakeCaseToPascalCase U input =
     (case snake_loop U input ([], False) (range_string 0 input) of
        Inl e \<Rightarrow> Inl e
      | Inr (output, isToUpper) \<Rightarrow> Inr output)"

definition stripNewlines :: "gostring \<Rightarrow> gostring" where
  "stripNewlines input = strings_Replace input (rs ''\<newline>'') (rs '' '') (- 1)"

subsection \<open>The decoded document\<close>

text \<open>
  The anonymous struct that \<^verbatim>\<open>main\<close> decodes into. A Go map is a finite mapping; nothing in
  it records the order in which its keys were stored. The nested structs of an operation, which
  the template does not read, are flattened into their fields.
\<close>

record items_struct =
  ItemsType :: gostring
  ItemsRef :: gostring

record property_struct =
  Type :: gostring
  Ref :: gostring
  Items :: items_struct
  Format :: gostring
  Description :: gostring

record definition_struct =
  Properties :: "(gostring, property_struct) mapping"
  DefinitionDescription :: gostring

record parameter_struct =
  ParamName :: gostring
  ParamIn :: gostring
  ParamRequired :: bool
  ParamType :: gostring
  ParamItemsType :: gostring
  ParamSchemaType :: gostring
  ParamSchemaRef :: gostring

record operation_struct =
  Summary :: gostring
  OperationId :: gostring
  ResponsesOkSchemaRef :: gostring
  Parameters :: "parameter_struct list"

record schema =
  Paths :: "(gostring, (gostring, operation_struct) mapping) mapping"
  Definitions :: "(gostring, definition_struct) mapping"

text \<open>The zero values of the structs, and the map left by the assignments \<^verbatim>\<open>m[k] = v\<close> in list order.\<close>

definition zero_items :: items_struct where
  "zero_items = \<lparr>ItemsType = [], ItemsRef = []\<rparr>"

definition zero_property :: property_struct where
  "zero_property = \<lparr>Type = [], Ref = [], Items = zero_items, Format = [], Description = []\<rparr>"

definition go_map :: "('k \<times> 'v) list \<Rightarrow> ('k, 'v) mapping" where
  "go_map kvs = foldl (\<lambda>m (k, v). Mapping.update k v m) Mapping.empty kvs"

subsection \<open>Executing the template\<close>

text \<open>
  Executing a template writes text piece by piece and stops at the first error; a panic in a
  function the template calls is such an error. An execution is the text written and the error
  that stopped it, if any. \<open>emit\<close> writes a text, \<open>call\<close> writes the result of a function call,
  \<open>assign\<close> binds a variable to one, \<open>seq\<close> runs executions one after the other, and
  \<open>range_map\<close> is \<^verbatim>\<open>{{range $k, $v := m}}\<close> over a map, which visits the keys in sorted order
  (Go compares strings byte by byte, which on valid UTF-8 is the lexicographic order of the
  code points).
  An action that starts with \<^verbatim>\<open>{{-\<close> removes the white space that ends the text before it; the
  texts below are the template's texts after that removal.
\<close>

type_synonym exec = "gostring \<times> panic option"

definition emit :: "gostring \<Rightarrow> exec" where
  "emit t = (t, None)"

definition call :: "panic + gostring \<Rightarrow> exec" where
  "call r = (case r of Inl e \<Rightarrow> ([], Some e) | Inr t \<Rightarrow> (t, None))"

definition assign :: "panic + gostring \<Rightarrow> (gostring \<Rightarrow> exec) \<Rightarrow> exec" where
  "assign r body = (case r of Inl e \<Rightarrow> ([], Some e) | Inr v \<Rightarrow> body v)"

fun seq :: "exec list \<Rightarrow> exec" where
  "seq [] = ([], None)"
| "seq ((t, Some e) # rest) = (t, Some e)"
| "seq ((t, None) # rest) = (case seq rest of (t', e) \<Rightarrow> (t @ t', e))"

definition range_map :: "('k::linorder, 'v) mapping \<Rightarrow> ('k \<Rightarrow> 'v \<Rightarrow> exec) \<Rightarrow> exec" where
  "range_map m body =
     seq (map (\<lambda>k. case Mapping.lookup m k of Some v \<Rightarrow> body k v | None \<Rightarrow> emit [])
            (Mapping.ordered_keys m))"

text \<open>Lines 46 to 69 of the file: one property in the interface.\<close>

definition interface_property :: "unicode_tables \<Rightarrow> gostring \<Rightarrow> property_struct \<Rightarrow> exec" where
  "interface_property U propname property =
     assign (snakeCaseToPascalCase U propname) (\<lambda>fieldname. seq
       [emit (rs ''\<newline>\<newline>        /// <summary>\<newline>        /// ''),
        emit (Description property),
        emit (rs ''\<newline>        /// </summary>''),
        if Type property = rs ''integer'' then
          seq [emit (rs ''\<newline>        int ''), emit fieldname, emit (rs '' { get; }'')]
        else if Type property = rs ''boolean'' then
          seq [emit (rs ''\<newline>        bool ''), emit fieldname, emit (rs '' { get; }'')]
        else if Type property = rs ''string'' then
          seq [emit (rs ''\<newline>        string ''), emit fieldname, emit (rs '' { get; }'')]
        else if Type property = rs ''array'' then
          (if ItemsType (Items property) = rs ''string'' then
             seq [emit (rs ''\<newline>        List<string> ''), emit fieldname,
                  emit (rs '' { get; }'')]
           else if ItemsType (Items property) = rs ''integer'' then
             seq [emit (rs ''\<newline>        List<int> ''), emit fieldname,
                  emit (rs '' { get; }'')]
           else if ItemsType (Items property) = rs ''boolean'' then
             seq [emit (rs ''\<newline>        List<bool> ''), emit fieldname,
                  emit (rs '' { get; }'')]
           else
             seq [emit (rs ''\<newline>        List<I''),
                  emit (convertRefToClassName U (ItemsRef (Items property))),
                  emit (rs ''> ''), emit fieldname, emit (rs '' { get; }'')])
        else
          seq [emit (rs ''\<newline>        I''), emit (convertRefToClassName U (Ref property)),
               emit (rs '' ''), emit fieldname, emit (rs '' { get; }'')]])"

text \<open>Lines 77 to 106: one property in the class.\<close>

definition class_property :: "unicode_tables \<Rightarrow> gostring \<Rightarrow> property_struct \<Rightarrow> exec" where
  "class_property U propname property =
     assign (snakeCaseToPascalCase U propname) (\<lambda>fieldname. seq
       [emit (rs ''\<newline>\<newline>        /// <inheritdoc />''),
        if Type property = rs ''integer'' then
          seq [emit (rs ''\<newline>        [TinyJson.JsonProperty(\"''), emit propname,
               emit (rs ''\")]\<newline>        public int ''), emit fieldname,
               emit (rs '' { get; set; }'')]
        else if Type property = rs ''boolean'' then
          seq [emit (rs ''\<newline>        [TinyJson.JsonProperty(\"''), emit propname,
               emit (rs ''\")]\<newline>        public bool ''), emit fieldname,
               emit (rs '' { get; set; }'')]
        else if Type property = rs ''string'' then
          seq [emit (rs ''\<newline>        [TinyJson.JsonProperty(\"''), emit propname,
               emit (rs ''\")]\<newline>        public string ''), emit fieldname,
               emit (rs '' { get; set; }'')]
        else if Type property = rs ''array'' then
          (if ItemsType (Items property) = rs ''string'' then
             seq [emit (rs ''\<newline>        [TinyJson.JsonProperty(\"''), emit propname,
                  emit (rs ''\")]\<newline>        public List<string> ''), emit fieldname,
                  emit (rs '' { get; set; }'')]
           else if ItemsType (Items property) = rs ''integer'' then
             seq [emit (rs ''\<newline>        [TinyJson.JsonProperty(\"''), emit propname,
                  emit (rs ''\")]\<newline>        public List<int> ''), emit fieldname,
                  emit (rs '' { get; set; }'')]
           else if ItemsType (Items property) = rs ''boolean'' then
             seq [emit (rs ''\<newline>        [TinyJson.JsonProperty(\"''), emit propname,
                  emit (rs ''\")]\<newline>        public List<bool> ''), emit fieldname,
                  emit (rs '' { get; set; }'')]
           else
             seq [emit (rs ''\<newline>        [TinyJson.JsonProperty(\"''), emit propname,
                  emit (rs ''\")]\<newline>        public List<I''),
                  emit (convertRefToClassName U (ItemsRef (Items property))),
                  emit (rs ''> ''), emit fieldname, emit (rs '' { get; set; }'')])
        else
          seq [emit (rs ''\<newline>        [TinyJson.JsonProperty(\"''), emit propname,
               emit (rs ''\")]\<newline>        public I''),
               emit (convertRefToClassName U (Ref property)),
               emit (rs '' ''), emit fieldname, emit (rs '' { get; set; }'')]])"

text \<open>Line 113: one property in \<^verbatim>\<open>ToString\<close>.\<close>

definition tostring_property :: "unicode_tables \<Rightarrow> gostring \<Rightarrow> property_struct \<Rightarrow> exec" where
  "tostring_property U fieldname property =
     seq [emit (rs ''\<newline>            output += string.Concat(output, \"''),
          call (snakeCaseToPascalCase U fieldname),
          emit (rs '': {\", ''),
          call (snakeCaseToPascalCase U fieldname),
          emit (rs '', \"}, \");'')]"

text \<open>Lines 38 to 117: one definition.\<close>

definition definition_block :: "unicode_tables \<Rightarrow> gostring \<Rightarrow> definition_struct \<Rightarrow> exec" where
  "definition_block U defname definition =
     (let classname = strings_Title U defname in seq
       [emit (rs ''\<newline>\<newline>    /// <summary>\<newline>    /// ''),
        emit (stripNewlines (DefinitionDescription definition)),
        emit (rs ''\<newline>    /// </summary>\<newline>    public interface I''),
        emit classname,
        emit (rs ''\<newline>    {''),
        range_map (Properties definition) (interface_property U),
        emit (rs (''\<newline>    }\<newline>\<newline>    /// <inheritdoc />\<newline>'' @
                  ''    internal class '')),
        emit classname,
        emit (rs '' : I''),
        emit classname,
        emit (rs ''\<newline>    {''),
        range_map (Properties definition) (class_property U),
        emit (rs (''\<newline>\<newline>        public override string ToString()\<newline>'' @
                  ''        {\<newline>            var output = \"\";'')),
        range_map (Properties definition) (tostring_property U),
        emit (rs ''\<newline>            return output;\<newline>        }\<newline>    }'')])"

text \<open>
  Lines 128 to 133: one operation. The block stands between \<^verbatim>\<open>/*\<close> and \<^verbatim>\<open>*/\<close>, which are text
  of the template, so its actions are executed like the others.
\<close>

definition operation_block :: "unicode_tables \<Rightarrow> gostring \<Rightarrow> operation_struct \<Rightarrow> exec" where
  "operation_block U method operation =
     seq [emit (rs ''\<newline>\<newline>        /// <summary>\<newline>        /// ''),
          emit (stripNewlines (Summary operation)),
          emit (rs ''\<newline>        /// </summary>\<newline>        public Task<> ''),
          call (snakeCaseToPascalCase U (OperationId operation)),
          emit (rs ''Async()\<newline>        {\<newline>        }'')]"

definition codeTemplate :: "unicode_tables \<Rightarrow> schema \<Rightarrow> exec" where
  "codeTemplate U s = seq
     [emit (rs (''\<newline>/* Code generated by openapi-gen/main.go. DO NOT EDIT. */\<newline>'' @
                ''\<newline>namespace Nakama\<newline>{\<newline>    using System;\<newline>'' @
                ''    using System.Collections.Generic;\<newline>'' @
                ''    using System.Threading.Tasks;'')),
      range_map (Definitions s) (definition_block U),
      emit (rs (''\<newline>/*\<newline>    /// <summary>\<newline>'' @
                ''    /// The low level client for the Nakama API.\<newline>'' @
                ''    /// </summary>\<newline>    internal class ApiClient\<newline>    {'')),
      range_map (Paths s) (\<lambda>url path. range_map path (operation_block U)),
      emit (rs ''\<newline>    }\<newline>*/\<newline>}\<newline>'')]"

subsection \<open>The program\<close>

text \<open>
  The world \<^verbatim>\<open>main\<close> runs in: the files and their bytes, the paths at which \<^verbatim>\<open>os.Create\<close>
  fails (with the reason), the paths whose file takes only so many bytes before a write to it
  fails, and what has been printed. The library the program is linked with: the tables of
  package \<^verbatim>\<open>unicode\<close>, the decoder \<^verbatim>\<open>json.Unmarshal\<close> into the struct above (the schema or
  the error's text), and the error of parsing \<^verbatim>\<open>codeTemplate\<close>, if the parser finds one.
\<close>

record world =
  files :: "string \<Rightarrow> string option"
  create_errors :: "string \<Rightarrow> string option"
  write_limits :: "string \<Rightarrow> nat option"
  stdout :: string
  stderr :: string

record library =
  unicode :: unicode_tables
  json_Unmarshal :: "string \<Rightarrow> string + schema"
  template_Parse :: "string option"

definition bytes_of :: "gostring \<Rightarrow> string" where
  "bytes_of s = map char_of (utf8 s)"

definition ioutil_ReadFile :: "world \<Rightarrow> string \<Rightarrow> string + string" where
  "ioutil_ReadFile w name =
     (case files w name of
        None \<Rightarrow> Inl (''open '' @ name @ '': no such file or directory'')
      | Some content \<Rightarrow> Inr content)"

text \<open>\<^verbatim>\<open>os.Create\<close> creates the file or truncates it.\<close>

definition os_Create :: "world \<Rightarrow> string \<Rightarrow> string + world" where
  "os_Create w name =
     (case create_errors w name of
        Some e \<Rightarrow> Inl (''open '' @ name @ '': '' @ e)
      | None \<Rightarrow> Inr (w\<lparr>files := (files w)(name \<mapsto> [])\<rparr>))"

text \<open>
  Executing into the buffered writer and flushing it appends the text to the file, up to the
  byte at which a write fails; \<^verbatim>\<open>main\<close> drops the errors of both calls.
\<close>

definition write_file :: "world \<Rightarrow> string \<Rightarrow> string \<Rightarrow> world" where
  "write_file w name bytes =
     (case files w name of
        None \<Rightarrow> w
      | Some content \<Rightarrow>
          w\<lparr>files := (files w)(name \<mapsto> content @
             (case write_limits w name of None \<Rightarrow> bytes | Some n \<Rightarrow> take n bytes))\<rparr>)"

definition Print :: "world \<Rightarrow> string \<Rightarrow> world" where
  "Print w text = w\<lparr>stdout := stdout w @ text\<rparr>"

text \<open>The verb \<^verbatim>\<open>%s\<close> on a slice of strings writes its elements between brackets.\<close>

fun Sprint_strings :: "string list \<Rightarrow> string" where
  "Sprint_strings [] = []"
| "Sprint_strings [x] = x"
| "Sprint_strings (x # y # zs) = x @ '' '' @ Sprint_strings (y # zs)"

definition PrintDefaults :: "world \<Rightarrow> world" where
  "PrintDefaults w =
     w\<lparr>stderr := stderr w @ ''  -output string\<newline>    '' @ [CHR 0x09] @
        ''The output for generated code.\<newline>''\<rparr>"

text \<open>
  \<^verbatim>\<open>main\<close> after \<^verbatim>\<open>flag.Parse\<close>: \<open>output\<close> is the value of the flag and \<open>inputs\<close> are the
  other arguments. Every path through it returns, so the exit status is 0.
\<close>

definition main :: "library \<Rightarrow> string \<Rightarrow> string list \<Rightarrow> world \<Rightarrow> world \<times> nat" where
  "main L output inputs w =
     (if length inputs < 1 then
        (PrintDefaults
           (Print
              (Print w (''No input file found: ['' @ Sprint_strings inputs @ '']\<newline>\<newline>''))
              ''openapi-gen [flags] inputs...\<newline>''), 0)
      else
        let input = inputs ! 0 in
        case ioutil_ReadFile w input of
          Inl err \<Rightarrow> (Print w (''Unable to read file: '' @ err @ ''\<newline>''), 0)
        | Inr content \<Rightarrow>
            (case json_Unmarshal L content of
               Inl err \<Rightarrow>
                 (Print w (''Unable to decode input '' @ input @ '' : '' @ err @ ''\<newline>''), 0)
             | Inr schema \<Rightarrow>
                 (case template_Parse L of
                    Some err \<Rightarrow> (Print w (''Template parse error: '' @ err @ ''\<newline>''), 0)
                  | None \<Rightarrow>
                      if length output < 1 then
                        (Print w (bytes_of (fst (codeTemplate (unicode L) schema))), 0)
                      else
                        (case os_Create w output of
                           Inl err \<Rightarrow>
                             (Print w (''Unable to create file: '' @ err @ ''\<newline>''), 0)
                         | Inr w' \<Rightarrow>
                             (write_file w' output
                                (bytes_of (fst (codeTemplate (unicode L) schema))), 0)))))"

subsection \<open>Closed forms, the specification's classification and concrete values\<close>

text \<open>
  What the loop of \<^verbatim>\<open>snakeCaseToPascalCase\<close> appends after the first code point, as a
  recursion on the remaining code points with the flag \<open>isToUpper\<close>; the loop is proved equal
  to it (\<open>snake_closed_Cons\<close>). \<open>first_byte\<close> is the first byte of a code point's encoding.
\<close>

fun snake_rest :: "unicode_tables \<Rightarrow> bool \<Rightarrow> gostring \<Rightarrow> gostring" where
  "snake_rest U f [] = []"
| "snake_rest U f (v # vs) =
     (if f then unicode_ToUpper U v # snake_rest U False vs
      else if v = underscore then snake_rest U True vs
      else v # snake_rest U False vs)"

definition first_byte :: "rune \<Rightarrow> nat" where
  "first_byte r =
     (if r \<le> 0x7F then r
      else if r \<le> 0x7FF then 0xC0 + r div 64
      else if r > 0x10FFFF \<or> (0xD800 \<le> r \<and> r \<le> 0xDFFF) then 0xEF
      else if r \<le> 0xFFFF then 0xE0 + r div 4096
      else 0xF0 + r div 262144)"

text \<open>
  The classification of a property that the specification describes (section 4.3 and the
  design notes): decided once from \<open>Type\<close>, \<open>Items\<close> and \<open>Ref\<close>, and the C# type written for
  each kind.
\<close>

datatype element_kind = StringElement | IntegerElement | BooleanElement | ReferenceElement gostring

datatype field_kind =
  IntegerField | BooleanField | StringField | SequenceField element_kind | ObjectReference gostring

definition spec_element_kind :: "items_struct \<Rightarrow> element_kind" where
  "spec_element_kind i =
     (if ItemsType i = rs ''string'' then StringElement
      else if ItemsType i = rs ''integer'' then IntegerElement
      else if ItemsType i = rs ''boolean'' then BooleanElement
      else ReferenceElement (ItemsRef i))"

definition spec_field_kind :: "property_struct \<Rightarrow> field_kind" where
  "spec_field_kind p =
     (if Type p = rs ''integer'' then IntegerField
      else if Type p = rs ''boolean'' then BooleanField
      else if Type p = rs ''string'' then StringField
      else if Type p = rs ''array'' then SequenceField (spec_element_kind (Items p))
      else ObjectReference (Ref p))"

fun field_type_text :: "unicode_tables \<Rightarrow> field_kind \<Rightarrow> gostring" where
  "field_type_text U IntegerField = rs ''int''"
| "field_type_text U BooleanField = rs ''bool''"
| "field_type_text U StringField = rs ''string''"
| "field_type_text U (SequenceField StringElement) = rs ''List<string>''"
| "field_type_text U (SequenceField IntegerElement) = rs ''List<int>''"
| "field_type_text U (SequenceField BooleanElement) = rs ''List<bool>''"
| "field_type_text U (SequenceField (ReferenceElement r)) =
     rs ''List<I'' @ convertRefToClassName U r @ rs ''>''"
| "field_type_text U (ObjectReference r) = rs ''I'' @ convertRefToClassName U r"

text \<open>
  The value the minimal document of the specification decodes to, a decoder that knows this
  document and rejects everything else, and a small world, for concrete runs of \<open>main\<close>.
\<close>

definition account_schema :: schema where
  "account_schema =
     \<lparr>Paths = Mapping.empty,
      Definitions = go_map
        [(rs ''Account'',
          \<lparr>Properties = go_map
             [(rs ''user_id'', zero_property\<lparr>Type := rs ''string''\<rparr>),
              (rs ''wallet'', zero_property\<lparr>Type := rs ''integer''\<rparr>)],
           DefinitionDescription = []\<rparr>)]\<rparr>"

definition empty_definition :: definition_struct where
  "empty_definition = \<lparr>Properties = Mapping.empty, DefinitionDescription = []\<rparr>"

definition minimal_document :: string where
  "minimal_document =
     ''{\"definitions\":{\"Account\":{\"properties\":{\"user_id\":{\"type\":\"string\"},'' @
     ''\"wallet\":{\"type\":\"integer\"}}}}}''"

definition demo_library :: library where
  "demo_library =
     \<lparr>unicode = ascii_tables,
      json_Unmarshal = (\<lambda>content.
        if content = minimal_document then Inr account_schema
        else Inl ''unexpected end of JSON input''),
      template_Parse = None\<rparr>"

definition demo_world :: world where
  "demo_world =
     \<lparr>files = [''api.json'' \<mapsto> minimal_document, ''broken.json'' \<mapsto> ''{''],
      create_errors = [''/nonexistent/out.cs'' \<mapsto> ''no such file or directory''],
      write_limits = [''/mnt/full/out.cs'' \<mapsto> 0],
      stdout = [],
      stderr = []\<rparr>"


section \<open>Proofs\<close>

declare strings_Replace.simps [simp del]

subsection \<open>\<^verbatim>\<open>stripNewlines\<close>\<close>

lemma strings_Replace_single:
  "n < 0 \<Longrightarrow> c \<noteq> d \<Longrightarrow> strings_Replace s [c] [d] n = map (\<lambda>x. if x = c then d else x) s"
proof (induction s arbitrary: n)
  case Nil
  then show ?case by (simp add: strings_Replace.simps [of "[]"])
next
  case (Cons a s)
  from Cons.prems have m: "n - 1 < 0" and nz: "n \<noteq> 0" by simp_all
  show ?case
    using Cons.IH [OF m Cons.prems(2)] Cons.IH [OF Cons.prems] nz Cons.prems(2)
    by (auto simp add: strings_Replace.simps [of "a # s"])
qed

lemma stripNewlines_map: "stripNewlines s = map (\<lambda>r. if r = 10 then 32 else r) s"
  by (simp add: stripNewlines_def rs_def strings_Replace_single)

lemma length_EncodeRune_cong:
  "length (EncodeRune (if r = 10 then 32 else r)) = length (EncodeRune r)"
  by (simp add: EncodeRune_def)

lemma length_utf8: "length (utf8 s) = sum_list (map (\<lambda>r. length (EncodeRune r)) s)"
  by (induction s) (simp_all add: utf8_def)

text \<open>
  C9 (corrected). \<^verbatim>\<open>stripNewlines\<close> replaces every line feed by one space and keeps every other
  code point, so \<^verbatim>\<open>"a\nb\nc"\<close> becomes \<^verbatim>\<open>"a b c"\<close>; the length of the string, in code points
  and in bytes, is preserved. Nothing collapses: a carriage return before a line feed stays.
\<close>

theorem stripNewlines_replaces_each_newline:
  "stripNewlines s = map (\<lambda>r. if r = 10 then 32 else r) s \<and>
   length (stripNewlines s) = length s \<and>
   length (utf8 (stripNewlines s)) = length (utf8 s) \<and>
   stripNewlines (rs ''a\<newline>b\<newline>c'') = rs ''a b c''"
proof -
  have "length (utf8 (map (\<lambda>r. if r = 10 then 32 else r) s)) = length (utf8 s)"
    by (simp add: length_utf8 comp_def length_EncodeRune_cong)
  then show ?thesis
    by (simp add: stripNewlines_map rs_def)
qed

text \<open>
  The claim as stated fails on a carriage return followed by a line feed: the two characters
  become a carriage return and a space, not one space, and the length stays 2.
\<close>

theorem stripNewlines_collapse_counterexample:
  "stripNewlines [13, 10] = [13, 32] \<and> stripNewlines [13, 10] \<noteq> rs '' '' \<and>
   length (stripNewlines [13, 10]) = length [13, 10 :: rune]"
  by (simp add: stripNewlines_map rs_def)

subsection \<open>\<^verbatim>\<open>snakeCaseToPascalCase\<close>\<close>

lemma EncodeRune_first: "\<exists>bs. EncodeRune r = first_byte r # bs"
  by (simp add: EncodeRune_def first_byte_def)

lemma length_EncodeRune_pos: "0 < length (EncodeRune r)"
  using EncodeRune_first [of r] by auto

lemma index_string_Cons: "index_string (v # vs) 0 = Inr (first_byte v)"
  using EncodeRune_first [of v] by (auto simp: index_string_def utf8_def)

lemma range_string_lower: "(k', v) \<in> set (range_string k vs) \<Longrightarrow> k \<le> k'"
proof (induction vs arbitrary: k)
  case Nil
  then show ?case by simp
next
  case (Cons a vs)
  from Cons.prems
  have "(k', v) = (k, a) \<or> (k', v) \<in> set (range_string (k + length (EncodeRune a)) vs)"
    by simp
  then show ?case
  proof
    assume "(k', v) = (k, a)"
    then show ?thesis by simp
  next
    assume "(k', v) \<in> set (range_string (k + length (EncodeRune a)) vs)"
    from Cons.IH [OF this] show ?thesis by simp
  qed
qed

lemma range_string_snd: "map snd (range_string k vs) = vs"
  by (induction vs arbitrary: k) auto

lemma snake_loop_rest:
  "\<forall>kv \<in> set kvs. fst kv \<noteq> 0 \<Longrightarrow>
   \<exists>f'. snake_loop U input (out, f) kvs = Inr (out @ snake_rest U f (map snd kvs), f')"
proof (induction kvs arbitrary: out f)
  case Nil
  then show ?case by simp
next
  case (Cons kv kvs)
  obtain k v where kv: "kv = (k, v)" by (cases kv)
  from Cons.prems kv have k: "k \<noteq> 0" and rest: "\<forall>kv \<in> set kvs. fst kv \<noteq> 0" by auto
  show ?case
    using Cons.IH [OF rest, of "out @ [unicode_ToUpper U v]" False]
      Cons.IH [OF rest, of out True] Cons.IH [OF rest, of "out @ [v]" False] k kv
    by (auto simp add: strings_ToUpper_def)
qed

lemma snake_closed_Nil: "snakeCaseToPascalCase U [] = Inr []"
  by (simp add: snakeCaseToPascalCase_def)

lemma snake_closed_Cons:
  "snakeCaseToPascalCase U (v # vs) =
   Inr (unicode_ToUpper U (first_byte v) # snake_rest U False vs)"
proof -
  have pos: "\<forall>kv \<in> set (range_string (length (EncodeRune v)) vs). fst kv \<noteq> 0"
    using range_string_lower [of _ _ "length (EncodeRune v)" vs] length_EncodeRune_pos [of v]
    by fastforce
  obtain f' where
    "snake_loop U (v # vs) ([unicode_ToUpper U (first_byte v)], False)
       (range_string (length (EncodeRune v)) vs) =
     Inr ([unicode_ToUpper U (first_byte v)] @
          snake_rest U False (map snd (range_string (length (EncodeRune v)) vs)), f')"
    using snake_loop_rest [OF pos] by blast
  then show ?thesis
    by (simp add: snakeCaseToPascalCase_def index_string_Cons strings_ToUpper_def range_string_snd)
qed

lemma snake_total: "\<exists>output. snakeCaseToPascalCase U input = Inr output"
  by (cases input) (simp_all add: snake_closed_Nil snake_closed_Cons)

text \<open>
  C10 (confirmed). On the empty string the loop of \<^verbatim>\<open>snakeCaseToPascalCase\<close> has nothing to
  range over, so \<^verbatim>\<open>input[0]\<close>, which would panic there, is not read and the result is the empty
  string; on every string the function returns a string and does not panic.
\<close>

theorem snakeCaseToPascalCase_empty_and_total:
  "index_string [] 0 = Inl IndexOutOfRange \<and>
   range_string 0 [] = [] \<and>
   snakeCaseToPascalCase U [] = Inr [] \<and>
   (\<exists>output. snakeCaseToPascalCase U input = Inr output)"
  using snake_total [of U input]
  by (simp add: snake_closed_Nil index_string_def utf8_def)















subsection \<open>\<^verbatim>\<open>convertRefToClassName\<close>\<close>

text \<open>
  C1 (defect of the code). \<^verbatim>\<open>strings.TrimLeft\<close> takes a set of characters, not a prefix: the
  reference \<^verbatim>\<open>#/definitions/Session\<close> gives \<^verbatim>\<open>Session\<close>, but \<^verbatim>\<open>#/definitions/session\<close>, whose
  name is made of characters of \<^verbatim>\<open>#/definitions/\<close>, gives the empty string, where stripping the
  prefix and title-casing the rest gives \<^verbatim>\<open>Session\<close>.
\<close>

theorem convertRefToClassName_trims_a_cutset:
  "convertRefToClassName U (rs ''#/definitions/Session'') = rs ''Session'' \<and>
   convertRefToClassName U (rs ''#/definitions/session'') = [] \<and>
   strings_Title U (drop (length ''#/definitions/'') (rs ''#/definitions/session'')) =
     rs ''Session'' \<and>
   convertRefToClassName U (rs ''definitions'') = [] \<and>
   strings_Title U (rs ''definitions'') = rs ''Definitions''"
  by (simp add: convertRefToClassName_def strings_TrimLeft_def strings_Title_def rs_def
      isSeparator_def unicode_ToTitle_def)

subsection \<open>The template\<close>

text \<open>
  C3 (confirmed). For every property, the field written in the interface and the field written
  in the class have the type of the property's kind, where the kind follows the precedence of
  the specification: \<open>integer\<close>, \<open>boolean\<close>, \<open>string\<close>, then \<open>array\<close> with the element taken from
  \<open>Items.Type\<close> when it is \<open>string\<close>, \<open>integer\<close> or \<open>boolean\<close> and from \<open>Items.Ref\<close> otherwise,
  and a reference derived from \<open>Ref\<close> for any other type.
\<close>

theorem property_field_follows_type_precedence:
  "\<exists>fieldname. snakeCaseToPascalCase U propname = Inr fieldname \<and>
     interface_property U propname p =
       emit (rs ''\<newline>\<newline>        /// <summary>\<newline>        /// '' @ Description p @
             rs ''\<newline>        /// </summary>\<newline>        '' @
             field_type_text U (spec_field_kind p) @ rs '' '' @ fieldname @ rs '' { get; }'') \<and>
     class_property U propname p =
       emit (rs ''\<newline>\<newline>        /// <inheritdoc />\<newline>        [TinyJson.JsonProperty(\"'' @
             propname @ rs ''\")]\<newline>        public '' @
             field_type_text U (spec_field_kind p) @ rs '' '' @ fieldname @ rs '' { get; set; }'')"
proof -
  obtain fieldname where f: "snakeCaseToPascalCase U propname = Inr fieldname"
    using snake_total by blast
  have i: "interface_property U propname p =
       emit (rs ''\<newline>\<newline>        /// <summary>\<newline>        /// '' @ Description p @
             rs ''\<newline>        /// </summary>\<newline>        '' @
             field_type_text U (spec_field_kind p) @ rs '' '' @ fieldname @ rs '' { get; }'')"
    by (simp add: interface_property_def f assign_def spec_field_kind_def spec_element_kind_def
        emit_def rs_def)
  have c: "class_property U propname p =
       emit (rs ''\<newline>\<newline>        /// <inheritdoc />\<newline>        [TinyJson.JsonProperty(\"'' @
             propname @ rs ''\")]\<newline>        public '' @
             field_type_text U (spec_field_kind p) @ rs '' '' @ fieldname @ rs '' { get; set; }'')"
    by (simp add: class_property_def f assign_def spec_field_kind_def spec_element_kind_def
        emit_def rs_def)
  from f i c show ?thesis by blast
qed

text \<open>
  The two examples of the specification: an array of strings is a \<^verbatim>\<open>List<string>\<close>, and a
  property with no type and a reference to \<open>Wallet\<close> is an \<open>IWallet\<close>.
\<close>

lemma property_field_examples:
  "interface_property U (rs ''tags'')
     (zero_property\<lparr>Type := rs ''array'', Items := zero_items\<lparr>ItemsType := rs ''string''\<rparr>\<rparr>) =
   emit (rs (''\<newline>\<newline>        /// <summary>\<newline>        /// \<newline>        /// </summary>\<newline>'' @
             ''        List<string> Tags { get; }''))"
  "interface_property U (rs ''wallet'') (zero_property\<lparr>Ref := rs ''#/definitions/Wallet''\<rparr>) =
   emit (rs (''\<newline>\<newline>        /// <summary>\<newline>        /// \<newline>        /// </summary>\<newline>'' @
             ''        IWallet Wallet { get; }''))"
  by (simp_all add: interface_property_def assign_def emit_def rs_def zero_property_def
      zero_items_def snake_closed_Cons first_byte_def unicode_ToUpper_def
      convertRefToClassName_def strings_TrimLeft_def strings_Title_def isSeparator_def
      unicode_ToTitle_def)

lemma go_map_Nil: "go_map [] = Mapping.empty"
  by (simp add: go_map_def)

text \<open>
  C4 (confirmed). Executing the template on the value of the minimal document writes the
  interface \<open>IAccount\<close> with the accessors \<^verbatim>\<open>string UserId\<close> and \<^verbatim>\<open>int Wallet\<close>, and the class
  \<open>Account : IAccount\<close> whose field \<open>UserId\<close> carries \<^verbatim>\<open>[TinyJson.JsonProperty("user_id")]\<close>;
  the whole text is the one below, and no error stops the execution.
\<close>

theorem codeTemplate_account_schema:
  "codeTemplate U account_schema = emit (rs (
      ''\<newline>'' @
      ''/* Code generated by openapi-gen/main.go. DO NOT EDIT. */\<newline>'' @
      ''\<newline>'' @
      ''namespace Nakama\<newline>'' @
      ''{\<newline>'' @
      ''    using System;\<newline>'' @
      ''    using System.Collections.Generic;\<newline>'' @
      ''    using System.Threading.Tasks;\<newline>'' @
      ''\<newline>'' @
      ''    /// <summary>\<newline>'' @
      ''    /// \<newline>'' @
      ''    /// </summary>\<newline>'' @
      ''    public interface IAccount\<newline>'' @
      ''    {\<newline>'' @
      ''\<newline>'' @
      ''        /// <summary>\<newline>'' @
      ''        /// \<newline>'' @
      ''        /// </summary>\<newline>'' @
      ''        string UserId { get; }\<newline>'' @
      ''\<newline>'' @
      ''        /// <summary>\<newline>'' @
      ''        /// \<newline>'' @
      ''        /// </summary>\<newline>'' @
      ''        int Wallet { get; }\<newline>'' @
      ''    }\<newline>'' @
      ''\<newline>'' @
      ''    /// <inheritdoc />\<newline>'' @
      ''    internal class Account : IAccount\<newline>'' @
      ''    {\<newline>'' @
      ''\<newline>'' @
      ''        /// <inheritdoc />\<newline>'' @
      ''        [TinyJson.JsonProperty(\"user_id\")]\<newline>'' @
      ''        public string UserId { get; set; }\<newline>'' @
      ''\<newline>'' @
      ''        /// <inheritdoc />\<newline>'' @
      ''        [TinyJson.JsonProperty(\"wallet\")]\<newline>'' @
      ''        public int Wallet { get; set; }\<newline>'' @
      ''\<newline>'' @
      ''        public override string ToString()\<newline>'' @
      ''        {\<newline>'' @
      ''            var output = \"\";\<newline>'' @
      ''            output += string.Concat(output, \"UserId: {\", UserId, \"}, \");\<newline>'' @
      ''            output += string.Concat(output, \"Wallet: {\", Wallet, \"}, \");\<newline>'' @
      ''            return output;\<newline>'' @
      ''        }\<newline>'' @
      ''    }\<newline>'' @
      ''/*\<newline>'' @
      ''    /// <summary>\<newline>'' @
      ''    /// The low level client for the Nakama API.\<newline>'' @
      ''    /// </summary>\<newline>'' @
      ''    internal class ApiClient\<newline>'' @
      ''    {\<newline>'' @
      ''    }\<newline>'' @
      ''*/\<newline>'' @
      ''}\<newline>''))"
  by (simp add: codeTemplate_def account_schema_def go_map_def range_map_def
      Mapping.lookup_update' definition_block_def rs_def emit_def interface_property_def
      class_property_def tostring_property_def zero_property_def zero_items_def
      snake_closed_Cons first_byte_def unicode_ToUpper_def assign_def call_def strings_Title_def
      isSeparator_def unicode_ToTitle_def stripNewlines_map)

subsection \<open>The order of \<^verbatim>\<open>range\<close> over a map\<close>

lemma go_map_snoc: "go_map (kvs @ [(k, v)]) = Mapping.update k v (go_map kvs)"
  by (simp add: go_map_def)

lemma keys_go_map: "Mapping.keys (go_map kvs) = set (map fst kvs)"
proof (induction kvs rule: rev_induct)
  case Nil
  then show ?case by (simp add: go_map_def)
next
  case (snoc kv kvs)
  then show ?case by (cases kv) (simp add: go_map_snoc)
qed

lemma ordered_keys_go_map: "Mapping.ordered_keys (go_map kvs) = sort (remdups (map fst kvs))"
  using sorted_list_of_set_sort_remdups [of "map fst kvs"]
  by (simp add: Mapping.ordered_keys_def keys_go_map)

lemma lookup_go_map:
  "distinct (map fst kvs) \<Longrightarrow> (k, v) \<in> set kvs \<Longrightarrow> Mapping.lookup (go_map kvs) k = Some v"
proof (induction kvs rule: rev_induct)
  case Nil
  then show ?case by simp
next
  case (snoc kv kvs)
  obtain k' v' where kv: "kv = (k', v')" by (cases kv)
  show ?case
  proof (cases "(k, v) \<in> set kvs")
    case True
    with snoc.prems kv have "k' \<noteq> k" by (auto simp: image_iff)
    with snoc.IH True snoc.prems(1) kv show ?thesis
      by (simp add: go_map_snoc Mapping.lookup_update')
  next
    case False
    with snoc.prems(2) kv have "k' = k" "v' = v" by auto
    with kv show ?thesis by (simp add: go_map_snoc Mapping.lookup_update')
  qed
qed

lemma map_insort_key: "map f (insort_key f x xs) = insort (f x) (map f xs)"
  by (induction xs) simp_all

lemma map_sort_key: "map f (sort_key f xs) = sort (map f xs)"
  by (induction xs) (simp_all add: map_insort_key)

lemma range_map_go_map:
  assumes d: "distinct (map fst kvs)"
  shows "range_map (go_map kvs) body = seq (map (\<lambda>(k, v). body k v) (sort_key fst kvs))"
proof -
  have keys: "Mapping.ordered_keys (go_map kvs) = map fst (sort_key fst kvs)"
    using d by (simp add: ordered_keys_go_map map_sort_key distinct_remdups_id)
  have "(case Mapping.lookup (go_map kvs) (fst kv) of Some v \<Rightarrow> body (fst kv) v | None \<Rightarrow> emit [])
      = (case kv of (k, v) \<Rightarrow> body k v)" if "kv \<in> set kvs" for kv
  proof -
    obtain k v where kv: "kv = (k, v)" by (cases kv)
    with that lookup_go_map [OF d, of k v] show ?thesis by simp
  qed
  then have m: "map (\<lambda>kv. case Mapping.lookup (go_map kvs) (fst kv) of
        Some v \<Rightarrow> body (fst kv) v | None \<Rightarrow> emit []) (sort_key fst kvs) =
      map (\<lambda>(k, v). body k v) (sort_key fst kvs)"
    by (intro map_cong) simp_all
  show ?thesis
    by (simp only: range_map_def keys map_map comp_def m)
qed

lemma go_map_same_members:
  assumes "distinct (map fst kvs)" "distinct (map fst kvs')" "set kvs' = set kvs"
  shows "go_map kvs' = go_map kvs"
proof (rule mapping_eqI)
  fix k
  show "Mapping.lookup (go_map kvs') k = Mapping.lookup (go_map kvs) k"
  proof (cases "k \<in> fst ` set kvs")
    case True
    then obtain v where "(k, v) \<in> set kvs" by auto
    with assms show ?thesis by (simp add: lookup_go_map)
  next
    case False
    with assms(3) have "k \<notin> Mapping.keys (go_map kvs)" "k \<notin> Mapping.keys (go_map kvs')"
      by (simp_all add: keys_go_map)
    then show ?thesis by (simp add: Mapping.keys_dom_lookup domIff)
  qed
qed

text \<open>
  C6 (corrected). The template visits the keys of \<open>Definitions\<close>, and of the \<open>Properties\<close> of
  each definition, in ascending order of the keys, each key once: for a map filled from a list
  of members with distinct keys, the body is executed on the members sorted by key, whatever
  the order of the list, and two lists with the same members give the same execution.
\<close>

theorem range_map_visits_keys_in_ascending_order:
  assumes "distinct (map fst kvs)"
  shows "range_map (go_map kvs) body = seq (map (\<lambda>(k, v). body k v) (sort_key fst kvs)) \<and>
    sorted (map fst (sort_key fst kvs)) \<and>
    (\<forall>kvs'. distinct (map fst kvs') \<and> set kvs' = set kvs \<longrightarrow>
       range_map (go_map kvs') body = range_map (go_map kvs) body)"
proof (intro conjI allI impI)
  show "range_map (go_map kvs) body = seq (map (\<lambda>(k, v). body k v) (sort_key fst kvs))"
    using assms by (rule range_map_go_map)
  show "sorted (map fst (sort_key fst kvs))"
    by simp
  fix kvs' :: "('a \<times> 'b) list"
  assume "distinct (map fst kvs') \<and> set kvs' = set kvs"
  with assms have "go_map kvs' = go_map kvs"
    by (intro go_map_same_members) simp_all
  then show "range_map (go_map kvs') body = range_map (go_map kvs) body"
    by simp
qed

theorem range_map_visits_keys_in_ascending_order_witness:
  "range_map (go_map [(rs ''wallet'', zero_property), (rs ''user_id'', zero_property)])
     (interface_property ascii_tables) =
   seq [interface_property ascii_tables (rs ''user_id'') zero_property,
        interface_property ascii_tables (rs ''wallet'') zero_property] \<and>
   range_map (go_map [(rs ''user_id'', zero_property), (rs ''wallet'', zero_property)])
     (interface_property ascii_tables) =
   range_map (go_map [(rs ''wallet'', zero_property), (rs ''user_id'', zero_property)])
     (interface_property ascii_tables)"
proof -
  have d: "distinct (map fst [(rs ''wallet'', zero_property), (rs ''user_id'', zero_property)])"
    by (simp add: rs_def)
  have d': "distinct (map fst [(rs ''user_id'', zero_property), (rs ''wallet'', zero_property)])"
    by (simp add: rs_def)
  have s: "set [(rs ''user_id'', zero_property), (rs ''wallet'', zero_property)] =
      set [(rs ''wallet'', zero_property), (rs ''user_id'', zero_property)]"
    by auto
  have o: "sort_key fst [(rs ''wallet'', zero_property), (rs ''user_id'', zero_property)] =
      [(rs ''user_id'', zero_property), (rs ''wallet'', zero_property)]"
    by (simp add: rs_def)
  note t = range_map_visits_keys_in_ascending_order [OF d, of "interface_property ascii_tables"]
  from t [THEN conjunct1] have first: "range_map
        (go_map [(rs ''wallet'', zero_property), (rs ''user_id'', zero_property)])
        (interface_property ascii_tables) =
      seq [interface_property ascii_tables (rs ''user_id'') zero_property,
           interface_property ascii_tables (rs ''wallet'') zero_property]"
    unfolding o by simp
  from t [THEN conjunct2, THEN conjunct2] d' s have "range_map
        (go_map [(rs ''user_id'', zero_property), (rs ''wallet'', zero_property)])
        (interface_property ascii_tables) =
      range_map (go_map [(rs ''wallet'', zero_property), (rs ''user_id'', zero_property)])
        (interface_property ascii_tables)"
    by blast
  with first show ?thesis by blast
qed

text \<open>
  The claim as stated fails on a map into which the key \<open>B\<close> was stored before the key \<open>A\<close>:
  the template writes the definition \<open>A\<close> first.
\<close>

theorem range_map_insertion_order_counterexample:
  "range_map (go_map [(rs ''B'', empty_definition), (rs ''A'', empty_definition)])
     (definition_block ascii_tables) =
   seq [definition_block ascii_tables (rs ''A'') empty_definition,
        definition_block ascii_tables (rs ''B'') empty_definition] \<and>
   range_map (go_map [(rs ''B'', empty_definition), (rs ''A'', empty_definition)])
     (definition_block ascii_tables) \<noteq>
   seq [definition_block ascii_tables (rs ''B'') empty_definition,
        definition_block ascii_tables (rs ''A'') empty_definition]"
proof -
  have d: "distinct (map fst [(rs ''B'', empty_definition), (rs ''A'', empty_definition)])"
    by (simp add: rs_def)
  have o: "sort_key fst [(rs ''B'', empty_definition), (rs ''A'', empty_definition)] =
      [(rs ''A'', empty_definition), (rs ''B'', empty_definition)]"
    by (simp add: rs_def)
  have a: "definition_block ascii_tables (rs ''A'') empty_definition =
      emit (rs (''\<newline>\<newline>    /// <summary>\<newline>    /// \<newline>    /// </summary>\<newline>'' @
        ''    public interface IA\<newline>    {\<newline>    }\<newline>\<newline>    /// <inheritdoc />\<newline>'' @
        ''    internal class A : IA\<newline>    {\<newline>\<newline>'' @
        ''        public override string ToString()\<newline>        {\<newline>'' @
        ''            var output = \"\";\<newline>            return output;\<newline>        }\<newline>    }''))"
    by (simp add: definition_block_def empty_definition_def range_map_def rs_def emit_def
        strings_Title_def isSeparator_def unicode_ToTitle_def stripNewlines_map)
  have b: "definition_block ascii_tables (rs ''B'') empty_definition =
      emit (rs (''\<newline>\<newline>    /// <summary>\<newline>    /// \<newline>    /// </summary>\<newline>'' @
        ''    public interface IB\<newline>    {\<newline>    }\<newline>\<newline>    /// <inheritdoc />\<newline>'' @
        ''    internal class B : IB\<newline>    {\<newline>\<newline>'' @
        ''        public override string ToString()\<newline>        {\<newline>'' @
        ''            var output = \"\";\<newline>            return output;\<newline>        }\<newline>    }''))"
    by (simp add: definition_block_def empty_definition_def range_map_def rs_def emit_def
        strings_Title_def isSeparator_def unicode_ToTitle_def stripNewlines_map)
  show ?thesis
    unfolding range_map_go_map [OF d] o list.map prod.case a b
    by (simp add: emit_def rs_def)
qed

subsection \<open>The execution of the template is never stopped by an error\<close>

lemma snd_seq_None: "\<forall>x \<in> set xs. snd x = None \<Longrightarrow> snd (seq xs) = None"
proof (induction xs rule: seq.induct)
  case 1
  then show ?case by simp
next
  case (2 t e rest)
  then show ?case by simp
next
  case (3 t rest)
  then show ?case by (cases "seq rest") simp
qed

lemma snd_emit: "snd (emit t) = None"
  by (simp add: emit_def)

lemma snd_call_snake: "snd (call (snakeCaseToPascalCase U s)) = None"
  using snake_total [of U s] by (auto simp: call_def)

lemma snd_range_map:
  "(\<And>k v. snd (body k v) = None) \<Longrightarrow> snd (range_map m body) = None"
  unfolding range_map_def
  by (rule snd_seq_None) (auto simp: snd_emit split: option.splits)

lemma snd_interface_property: "snd (interface_property U propname p) = None"
proof -
  obtain fieldname where f: "snakeCaseToPascalCase U propname = Inr fieldname"
    using snake_total by blast
  show ?thesis
    by (simp add: interface_property_def f assign_def emit_def)
qed

lemma snd_class_property: "snd (class_property U propname p) = None"
proof -
  obtain fieldname where f: "snakeCaseToPascalCase U propname = Inr fieldname"
    using snake_total by blast
  show ?thesis
    by (simp add: class_property_def f assign_def emit_def)
qed

lemma snd_tostring_property: "snd (tostring_property U fieldname p) = None"
  unfolding tostring_property_def
  by (rule snd_seq_None) (simp add: snd_emit snd_call_snake)

lemma snd_definition_block: "snd (definition_block U defname d) = None"
  unfolding definition_block_def Let_def
  by (rule snd_seq_None)
    (simp add: snd_emit snd_range_map snd_interface_property snd_class_property
      snd_tostring_property)

lemma snd_operation_block: "snd (operation_block U method operation) = None"
  unfolding operation_block_def
  by (rule snd_seq_None) (simp add: snd_emit snd_call_snake)

lemma codeTemplate_completes: "snd (codeTemplate U s) = None"
  unfolding codeTemplate_def
  by (rule snd_seq_None)
    (simp add: snd_emit snd_range_map snd_definition_block snd_operation_block)

subsection \<open>\<^verbatim>\<open>main\<close>\<close>

lemma main_read_error:
  "ioutil_ReadFile w input = Inl err \<Longrightarrow>
   main L output (input # others) w = (Print w (''Unable to read file: '' @ err @ ''\<newline>''), 0)"
  by (simp add: main_def)

lemma main_decode_error:
  "ioutil_ReadFile w input = Inr content \<Longrightarrow> json_Unmarshal L content = Inl err \<Longrightarrow>
   main L output (input # others) w =
     (Print w (''Unable to decode input '' @ input @ '' : '' @ err @ ''\<newline>''), 0)"
  by (simp add: main_def)

lemma main_parse_error:
  "ioutil_ReadFile w input = Inr content \<Longrightarrow> json_Unmarshal L content = Inr s \<Longrightarrow>
   template_Parse L = Some err \<Longrightarrow>
   main L output (input # others) w = (Print w (''Template parse error: '' @ err @ ''\<newline>''), 0)"
  by (simp add: main_def)

lemma main_create_error:
  "ioutil_ReadFile w input = Inr content \<Longrightarrow> json_Unmarshal L content = Inr s \<Longrightarrow>
   template_Parse L = None \<Longrightarrow> output \<noteq> [] \<Longrightarrow> os_Create w output = Inl err \<Longrightarrow>
   main L output (input # others) w = (Print w (''Unable to create file: '' @ err @ ''\<newline>''), 0)"
  by (cases "output") (simp_all add: main_def)

lemma main_writes_file:
  "files w input = Some content \<Longrightarrow> json_Unmarshal L content = Inr s \<Longrightarrow>
   template_Parse L = None \<Longrightarrow> output \<noteq> [] \<Longrightarrow> create_errors w output = None \<Longrightarrow>
   main L output (input # others) w =
     (w\<lparr>files := (files w)(output \<mapsto>
         (case write_limits w output of
            None \<Rightarrow> bytes_of (fst (codeTemplate (unicode L) s))
          | Some n \<Rightarrow> take n (bytes_of (fst (codeTemplate (unicode L) s)))))\<rparr>, 0)"
  by (cases "output") (simp_all add: main_def ioutil_ReadFile_def os_Create_def write_file_def)

text \<open>
  C7 (corrected). For each of the four errors that \<^verbatim>\<open>main\<close> checks (reading the input,
  decoding it, parsing the template, creating the output file), the program prints one line
  with the text of the error on standard output, changes nothing else in the world (no file is
  created or written) and exits with status 0.
\<close>

theorem main_fatal_errors:
  "(ioutil_ReadFile w input = Inl err \<longrightarrow>
      main L output (input # others) w =
        (Print w (''Unable to read file: '' @ err @ ''\<newline>''), 0)) \<and>
   (ioutil_ReadFile w input = Inr content \<and> json_Unmarshal L content = Inl err \<longrightarrow>
      main L output (input # others) w =
        (Print w (''Unable to decode input '' @ input @ '' : '' @ err @ ''\<newline>''), 0)) \<and>
   (ioutil_ReadFile w input = Inr content \<and> json_Unmarshal L content = Inr s \<and>
    template_Parse L = Some err \<longrightarrow>
      main L output (input # others) w =
        (Print w (''Template parse error: '' @ err @ ''\<newline>''), 0)) \<and>
   (ioutil_ReadFile w input = Inr content \<and> json_Unmarshal L content = Inr s \<and>
    template_Parse L = None \<and> output \<noteq> [] \<and> os_Create w output = Inl err \<longrightarrow>
      main L output (input # others) w =
        (Print w (''Unable to create file: '' @ err @ ''\<newline>''), 0)) \<and>
   files (Print w text) = files w \<and> stdout (Print w text) = stdout w @ text \<and>
   stderr (Print w text) = stderr w"
  by (simp add: main_read_error main_decode_error main_parse_error main_create_error Print_def)

theorem main_fatal_errors_witness:
  "main demo_library ''out.cs'' [''missing.json''] demo_world =
     (Print demo_world
        ''Unable to read file: open missing.json: no such file or directory\<newline>'', 0) \<and>
   main demo_library ''out.cs'' [''broken.json''] demo_world =
     (Print demo_world
        ''Unable to decode input broken.json : unexpected end of JSON input\<newline>'', 0) \<and>
   main (demo_library\<lparr>template_Parse := Some ''template: api.json:1: unexpected EOF''\<rparr>)
       ''out.cs'' [''api.json''] demo_world =
     (Print demo_world
        ''Template parse error: template: api.json:1: unexpected EOF\<newline>'', 0) \<and>
   main demo_library ''/nonexistent/out.cs'' [''api.json''] demo_world =
     (Print demo_world
        (''Unable to create file: open /nonexistent/out.cs: no such file or directory'' @
         ''\<newline>''), 0) \<and>
   files (Print demo_world ''Unable to read file'') ''out.cs'' = None"
proof -
  have r: "ioutil_ReadFile demo_world ''missing.json'' =
      Inl ''open missing.json: no such file or directory''"
    by (simp add: ioutil_ReadFile_def demo_world_def)
  have b: "ioutil_ReadFile demo_world ''broken.json'' = Inr ''{''"
    by (simp add: ioutil_ReadFile_def demo_world_def)
  have a: "ioutil_ReadFile demo_world ''api.json'' = Inr minimal_document"
    by (simp add: ioutil_ReadFile_def demo_world_def)
  have d: "json_Unmarshal demo_library ''{'' = Inl ''unexpected end of JSON input''"
    by (simp add: demo_library_def minimal_document_def)
  have m: "json_Unmarshal demo_library minimal_document = Inr account_schema"
    by (simp add: demo_library_def)
  have m': "json_Unmarshal
      (demo_library\<lparr>template_Parse := Some ''template: api.json:1: unexpected EOF''\<rparr>)
      minimal_document = Inr account_schema"
    by (simp add: demo_library_def)
  have p: "template_Parse demo_library = None"
    by (simp add: demo_library_def)
  have c: "os_Create demo_world ''/nonexistent/out.cs'' =
      Inl ''open /nonexistent/out.cs: no such file or directory''"
    by (simp add: os_Create_def demo_world_def)
  have f: "files demo_world ''out.cs'' = None"
    by (simp add: demo_world_def)
  show ?thesis
    using main_fatal_errors [of demo_world "''missing.json''"
        "''open missing.json: no such file or directory''" demo_library "''out.cs''" "[]"]
      main_fatal_errors [of demo_world "''broken.json''" "''unexpected end of JSON input''"
        demo_library "''out.cs''" "[]" "''{''"]
      main_fatal_errors [of demo_world "''api.json''" "''template: api.json:1: unexpected EOF''"
        "demo_library\<lparr>template_Parse := Some ''template: api.json:1: unexpected EOF''\<rparr>"
        "''out.cs''" "[]" minimal_document account_schema]
      main_fatal_errors [of demo_world "''api.json''"
        "''open /nonexistent/out.cs: no such file or directory''" demo_library
        "''/nonexistent/out.cs''" "[]" minimal_document account_schema
        "''Unable to read file''"]
      r b a d m m' p c f
    by simp
qed

text \<open>
  The claim as stated fails on a failure to write: on a path whose file takes no byte, the
  program creates the file, leaves it empty and prints nothing.
\<close>

theorem main_write_failure_counterexample:
  "files demo_world ''/mnt/full/out.cs'' = None \<and>
   write_limits demo_world ''/mnt/full/out.cs'' = Some 0 \<and>
   main demo_library ''/mnt/full/out.cs'' [''api.json''] demo_world =
     (demo_world\<lparr>files := (files demo_world)(''/mnt/full/out.cs'' \<mapsto> [])\<rparr>, 0) \<and>
   stdout (fst (main demo_library ''/mnt/full/out.cs'' [''api.json''] demo_world)) = []"
proof -
  have a: "files demo_world ''api.json'' = Some minimal_document"
    by (simp add: demo_world_def)
  have m: "json_Unmarshal demo_library minimal_document = Inr account_schema"
    by (simp add: demo_library_def)
  have p: "template_Parse demo_library = None"
    by (simp add: demo_library_def)
  have c: "create_errors demo_world ''/mnt/full/out.cs'' = None"
    by (simp add: demo_world_def)
  have l: "write_limits demo_world ''/mnt/full/out.cs'' = Some 0"
    by (simp add: demo_world_def)
  have f: "files demo_world ''/mnt/full/out.cs'' = None"
    by (simp add: demo_world_def)
  have s: "stdout demo_world = []"
    by (simp add: demo_world_def)
  show ?thesis
    using main_writes_file [OF a m p _ c, of "[]"] l f s by simp
qed

text \<open>
  C8 (confirmed). When the input file is read and its bytes do not decode, \<^verbatim>\<open>main\<close> prints the
  diagnostic \<^verbatim>\<open>Unable to decode input\<close> with the path and the error, which is not empty, and
  changes nothing else: no file is created, truncated or written, and nothing is generated.
\<close>

theorem main_invalid_json_writes_no_file:
  assumes "files w input = Some content" and "json_Unmarshal L content = Inl err"
  shows "main L output (input # others) w =
      (w\<lparr>stdout := stdout w @
          ''Unable to decode input '' @ input @ '' : '' @ err @ ''\<newline>''\<rparr>, 0) \<and>
    files (fst (main L output (input # others) w)) = files w \<and>
    (\<exists>diagnostic. diagnostic \<noteq> [] \<and>
       stdout (fst (main L output (input # others) w)) = stdout w @ diagnostic)"
proof -
  have "ioutil_ReadFile w input = Inr content"
    using assms(1) by (simp add: ioutil_ReadFile_def)
  from main_decode_error [OF this assms(2)] show ?thesis
    by (simp add: Print_def)
qed

theorem main_invalid_json_writes_no_file_witness:
  "main demo_library ''out.cs'' [''broken.json''] demo_world =
     (demo_world\<lparr>stdout :=
        ''Unable to decode input broken.json : unexpected end of JSON input\<newline>''\<rparr>, 0) \<and>
   files (fst (main demo_library ''out.cs'' [''broken.json''] demo_world)) ''out.cs'' = None"
proof -
  have b: "files demo_world ''broken.json'' = Some ''{''"
    by (simp add: demo_world_def)
  have d: "json_Unmarshal demo_library ''{'' = Inl ''unexpected end of JSON input''"
    by (simp add: demo_library_def minimal_document_def)
  have f: "files demo_world ''out.cs'' = None" and s: "stdout demo_world = []"
    by (simp_all add: demo_world_def)
  show ?thesis
    using main_invalid_json_writes_no_file [OF b d, of "''out.cs''" "[]"] f s by simp
qed

text \<open>
  C5 (confirmed). The bytes of the output file are a function of the bytes of the input file
  and of the arguments: two runs with the same arguments, in worlds that agree on the input
  file and in which the output file can be created and written, leave the same output file,
  the encoding of the whole text of the template on the decoded input; and a second run after
  the first leaves the file as the first did.
\<close>

theorem main_output_is_deterministic:
  assumes "files w1 input = Some content" and "files w2 input = Some content"
    and "json_Unmarshal L content = Inr s" and "template_Parse L = None"
    and "output \<noteq> []"
    and "create_errors w1 output = None" and "create_errors w2 output = None"
    and "write_limits w1 output = None" and "write_limits w2 output = None"
  shows "files (fst (main L output (input # others) w1)) output =
      Some (bytes_of (fst (codeTemplate (unicode L) s))) \<and>
    snd (codeTemplate (unicode L) s) = None \<and>
    files (fst (main L output (input # others) w2)) output =
      files (fst (main L output (input # others) w1)) output \<and>
    (input \<noteq> output \<longrightarrow>
      files (fst (main L output (input # others) (fst (main L output (input # others) w1)))) output =
      files (fst (main L output (input # others) w1)) output)"
proof -
  let ?text = "bytes_of (fst (codeTemplate (unicode L) s))"
  have r1: "main L output (input # others) w1 = (w1\<lparr>files := (files w1)(output \<mapsto> ?text)\<rparr>, 0)"
    using main_writes_file [OF assms(1,3,4,5,6), of others] assms(8) by simp
  have r2: "main L output (input # others) w2 = (w2\<lparr>files := (files w2)(output \<mapsto> ?text)\<rparr>, 0)"
    using main_writes_file [OF assms(2,3,4,5,7), of others] assms(9) by simp
  have again: "main L output (input # others) (w1\<lparr>files := (files w1)(output \<mapsto> ?text)\<rparr>) =
      (w1\<lparr>files := (files w1)(output \<mapsto> ?text)\<rparr>, 0)" if "input \<noteq> output"
    using main_writes_file [of "w1\<lparr>files := (files w1)(output \<mapsto> ?text)\<rparr>" input content L s
        "output" others] that assms
    by simp
  show ?thesis
    using again by (simp add: r1 r2 codeTemplate_completes)
qed

theorem main_output_is_deterministic_witness:
  "files (fst (main demo_library ''out.cs'' [''api.json''] demo_world)) ''out.cs'' =
     Some (bytes_of (fst (codeTemplate ascii_tables account_schema))) \<and>
   files (fst (main demo_library ''out.cs'' [''api.json'']
     (demo_world\<lparr>files := (files demo_world)(''out.cs'' \<mapsto> ''old text''),
        stdout := ''earlier output''\<rparr>))) ''out.cs'' =
     files (fst (main demo_library ''out.cs'' [''api.json''] demo_world)) ''out.cs'' \<and>
   files (fst (main demo_library ''out.cs'' [''api.json'']
     (fst (main demo_library ''out.cs'' [''api.json''] demo_world)))) ''out.cs'' =
     files (fst (main demo_library ''out.cs'' [''api.json''] demo_world)) ''out.cs''"
proof -
  let ?w2 = "demo_world\<lparr>files := (files demo_world)(''out.cs'' \<mapsto> ''old text''),
        stdout := ''earlier output''\<rparr>"
  have a1: "files demo_world ''api.json'' = Some minimal_document"
    and a2: "files ?w2 ''api.json'' = Some minimal_document"
    and c1: "create_errors demo_world ''out.cs'' = None"
    and c2: "create_errors ?w2 ''out.cs'' = None"
    and l1: "write_limits demo_world ''out.cs'' = None"
    and l2: "write_limits ?w2 ''out.cs'' = None"
    by (simp_all add: demo_world_def)
  have m: "json_Unmarshal demo_library minimal_document = Inr account_schema"
    and p: "template_Parse demo_library = None"
    and u: "unicode demo_library = ascii_tables"
    by (simp_all add: demo_library_def)
  have o: "''out.cs'' \<noteq> []" and n: "''api.json'' \<noteq> ''out.cs''"
    by simp_all
  show ?thesis
    using main_output_is_deterministic [OF a1 a2 m p o c1 c2 l1 l2, of "[]"] n u
    by simp
qed

end
